theory Spec2Isabelle
  imports Main
begin

section \<open>The iteration stack of \<open>openmdao/recorders/recording_iteration_stack.py\<close>\<close>

text \<open>
  The module keeps one process-wide object \<open>recording_iteration\<close> (a stack of
  \<open>(name, iter_count)\<close> tuples and a prefix), formats it into an iteration coordinate,
  and offers the context manager \<open>Recording\<close> whose \<open>__enter__\<close> pushes a tuple and
  whose \<open>__exit__\<close> calls the requester's \<open>record_iteration\<close> and pops.

  Python exceptions are values of \<open>error\<close>; \<open>IndexError\<close> is what \<open>list.pop\<close> raises
  on an empty list, \<open>AttributeError\<close> what an attribute access on \<open>None\<close> raises, and
  \<open>UserError\<close> stands for any exception raised by code outside this module.
\<close>

datatype error = IndexError | AttributeError | UserError string

subsection \<open>Python's string operations used by the formatter\<close>

text \<open>\<open>str(n)\<close>, \<open>'%d' % n\<close> and \<open>'{}'.format(n)\<close> of an integer: its decimal digits.\<close>

definition digit_char :: "nat \<Rightarrow> char" where
  "digit_char d = ''0123456789'' ! d"

fun str_nat :: "nat \<Rightarrow> string" where
  "str_nat n = (if n < 10 then [digit_char n] else str_nat (n div 10) @ [digit_char (n mod 10)])"

declare str_nat.simps [simp del]

definition str_int :: "int \<Rightarrow> string" where
  "str_int i = (if i < 0 then CHR ''-'' # str_nat (nat (- i)) else str_nat (nat i))"

text \<open>\<open>separator.join(coord_list)\<close>.\<close>

fun str_join :: "string \<Rightarrow> string list \<Rightarrow> string" where
  "str_join sep [] = []"
| "str_join sep [x] = x"
| "str_join sep (x # y # ys) = x @ sep @ str_join sep (y # ys)"

subsection \<open>The class \<open>_RecIteration\<close> and the module's global state\<close>

type_synonym frame = "string \<times> int"

record RecIteration =
  stack :: "frame list"
  prefix :: "string option"

text \<open>
  \<open>_RecIteration.__init__(self)\<close> assigns \<open>self.stack = []\<close> and \<open>self.prefix = None\<close>,
  whatever the object held before. It is the only code of the class.
\<close>

definition RecIteration_init :: "RecIteration \<Rightarrow> RecIteration" where
  "RecIteration_init self = self\<lparr>stack := [], prefix := None\<rparr>"

text \<open>
  A call of \<open>record_iteration\<close>: with the keyword arguments \<open>abs\<close> and \<open>rel\<close>, or with
  no argument. The values of \<open>abs\<close> and \<open>rel\<close> are only stored and passed on, so their
  type \<open>'v\<close> is left open; it has a zero, the initial value of both attributes.
\<close>

datatype 'v call = Record_iteration_abs_rel 'v 'v | Record_iteration_no_args

text \<open>
  The recording requester is an object outside this module. \<open>rid\<close> is its identity,
  \<open>is_Solver\<close> says whether \<open>isinstance(requester, Solver)\<close> holds, and
  \<open>record_iteration\<close> gives, for each call, the exception the method raises
  (\<open>None\<close> when it returns).
\<close>

record 'v requester =
  rid :: nat
  is_Solver :: bool
  record_iteration :: "'v call \<Rightarrow> error option"

text \<open>
  The state the module reads and writes: the global \<open>recording_iteration\<close>, the imported
  name \<open>MPI\<close> (\<open>None\<close> when it is falsy, otherwise \<open>MPI.COMM_WORLD.rank\<close>), and the
  calls of \<open>record_iteration\<close> made so far, oldest first.
\<close>

record 'v world =
  recording_iteration :: RecIteration
  MPI :: "int option"
  calls :: "(nat \<times> 'v call) list"

definition set_stack :: "frame list \<Rightarrow> 'v world \<Rightarrow> 'v world" where
  "set_stack st w = w\<lparr>recording_iteration := (recording_iteration w)\<lparr>stack := st\<rparr>\<rparr>"

subsection \<open>\<open>get_formatted_iteration_coordinate\<close>\<close>

text \<open>Truth value of \<open>recording_iteration.prefix\<close>: \<open>None\<close> and \<open>''\<close> are falsy.\<close>

fun truthy :: "string option \<Rightarrow> bool" where
  "truthy None = False"
| "truthy (Some s) = (s \<noteq> [])"

text \<open>\<open>'%s' % x\<close> for \<open>x\<close> a string or \<open>None\<close>.\<close>

fun percent_s :: "string option \<Rightarrow> string" where
  "percent_s None = ''None''"
| "percent_s (Some s) = s"

text \<open>The loop that fills \<open>coord_list\<close>, one append for each stack entry in list order.\<close>

fun coord_list_loop :: "string \<Rightarrow> frame list \<Rightarrow> string list \<Rightarrow> string list" where
  "coord_list_loop separator [] coord_list = coord_list"
| "coord_list_loop separator ((name, iter_count) # rest) coord_list =
     coord_list_loop separator rest (coord_list @ [name @ separator @ str_int iter_count])"

text \<open>The function returns the string together with the state it leaves behind.\<close>

definition get_formatted_iteration_coordinate :: "'v world \<Rightarrow> string \<times> 'v world" where
  "get_formatted_iteration_coordinate w =
     (let separator = ''|'';
          prefix0 = (if truthy (prefix (recording_iteration w))
                     then percent_s (prefix (recording_iteration w)) @ ''_''
                     else '''');
          prefix1 = (case MPI w of
                       Some rank \<Rightarrow> prefix0 @ ''rank'' @ str_int rank @ '':''
                     | None \<Rightarrow> prefix0 @ ''rank0:'');
          coord_list = coord_list_loop separator (stack (recording_iteration w)) []
      in (prefix1 @ str_join separator coord_list, w))"

subsection \<open>The context manager \<open>Recording\<close>\<close>

text \<open>
  The attributes \<open>abs\<close>, \<open>rel\<close> and \<open>_is_solver\<close> of the source are the fields
  \<open>abs_err\<close>, \<open>rel_err\<close> and \<open>is_solver\<close>.
\<close>

record 'v Recording =
  name :: string
  iter_count :: int
  recording_requester :: "'v requester option"
  abs_err :: 'v
  rel_err :: 'v
  is_solver :: bool

definition Recording_init :: "string \<Rightarrow> int \<Rightarrow> 'v requester option \<Rightarrow> ('v::zero) Recording" where
  "Recording_init nm ic req =
     \<lparr>name = nm, iter_count = ic, recording_requester = req, abs_err = 0, rel_err = 0,
      is_solver = (case req of None \<Rightarrow> False | Some r \<Rightarrow> is_Solver r)\<rparr>"

definition Recording_enter :: "'v Recording \<Rightarrow> 'v world \<Rightarrow> 'v Recording \<times> 'v world" where
  "Recording_enter self w =
     (self, set_stack (stack (recording_iteration w) @ [(name self, iter_count self)]) w)"

text \<open>
  The loop of \<open>__exit__\<close> over the stack: \<open>do_recording\<close> starts as \<open>True\<close> and becomes
  \<open>False\<close>, ending the loop, at the first entry whose name is in the tuple.
\<close>

fun do_recording_loop :: "frame list \<Rightarrow> bool" where
  "do_recording_loop [] = True"
| "do_recording_loop (stack_item # rest) =
     (if fst stack_item \<in> set [''_run_apply'', ''_compute_totals''] then False
      else do_recording_loop rest)"

text \<open>The call form \<open>__exit__\<close> chooses from \<open>self._is_solver\<close>.\<close>

definition exit_call :: "'v Recording \<Rightarrow> 'v call" where
  "exit_call self =
     (if is_solver self then Record_iteration_abs_rel (abs_err self) (rel_err self)
      else Record_iteration_no_args)"

text \<open>
  \<open>self.recording_requester.record_iteration(...)\<close>: on \<open>None\<close> the attribute access
  raises; otherwise the call is made (and logged) and returns or raises as the requester
  does.
\<close>

definition call_record_iteration :: "'v Recording \<Rightarrow> 'v world \<Rightarrow> error option \<times> 'v world" where
  "call_record_iteration self w =
     (case recording_requester self of
        None \<Rightarrow> (Some AttributeError, w)
      | Some r \<Rightarrow> (record_iteration r (exit_call self),
                   w\<lparr>calls := calls w @ [(rid r, exit_call self)]\<rparr>))"

text \<open>\<open>list.pop()\<close>: removes and returns the last element, \<open>IndexError\<close> on an empty list.\<close>

definition list_pop :: "'a list \<Rightarrow> error + ('a \<times> 'a list)" where
  "list_pop xs = (if xs = [] then Inl IndexError else Inr (last xs, butlast xs))"

text \<open>
  \<open>__exit__\<close> returns the exception it raises (\<open>None\<close> when it returns, and then it
  returns Python's \<open>None\<close>, so it never swallows an exception of the block), the object
  and the state. The statements run in the source's order, and an exception ends the
  method where it is raised.
\<close>

definition Recording_exit ::
  "'v Recording \<Rightarrow> 'v world \<Rightarrow> error option \<times> 'v Recording \<times> 'v world" where
  "Recording_exit self w =
     (let do_recording = do_recording_loop (stack (recording_iteration w));
          (raised, w1) = (if do_recording then call_record_iteration self w else (None, w))
      in case raised of
           Some e \<Rightarrow> (Some e, self, w1)
         | None \<Rightarrow>
             (let self1 = self\<lparr>recording_requester := None\<rparr>
              in case list_pop (stack (recording_iteration w1)) of
                   Inl e \<Rightarrow> (Some e, self1, w1)
                 | Inr (item, st) \<Rightarrow> (None, self1, set_stack st w1)))"

subsection \<open>Nested \<open>with Recording(...) as rec\<close> blocks\<close>

text \<open>
  The statements of a body: a nested \<open>with Recording(name, iter_count, requester) as rec\<close>
  with its own body, the assignments \<open>rec.abs = a\<close> and \<open>rec.rel = b\<close> to the object of
  the enclosing \<open>with\<close>, and \<open>raise\<close>. Each \<open>with\<close> stands in a function of its own, as in
  the callers of this module, so \<open>rec\<close> in a body is the object of the innermost enclosing
  \<open>with\<close>.

  \<open>exec_with\<close> is the \<open>with\<close> statement: it calls \<open>__init__\<close> and \<open>__enter__\<close>, runs the body,
  and calls \<open>__exit__\<close> on the object as the body left it, whether the body raised or not.
  An exception raised by \<open>__exit__\<close> replaces the one of the body; otherwise the body's
  exception goes on, since \<open>__exit__\<close> returns \<open>None\<close>. \<open>exec_body\<close> runs the statements
  of a body in order and stops at the first exception.
\<close>

datatype 'v stmt =
    With string int "'v requester option" "'v stmt list"
  | Set_abs 'v
  | Set_rel 'v
  | Raise error

fun exec_with ::
    "string \<Rightarrow> int \<Rightarrow> ('v::zero) requester option \<Rightarrow> 'v stmt list \<Rightarrow> 'v world
       \<Rightarrow> error option \<times> 'v world"
  and exec_body ::
    "('v::zero) stmt list \<Rightarrow> 'v Recording \<Rightarrow> 'v world
       \<Rightarrow> error option \<times> 'v Recording \<times> 'v world" where
  "exec_with nm ic req body w =
     (case Recording_enter (Recording_init nm ic req) w of
        (rec, w1) \<Rightarrow>
          (case exec_body body rec w1 of
             (body_raised, rec2, w2) \<Rightarrow>
               (case Recording_exit rec2 w2 of
                  (Some e, rec3, w3) \<Rightarrow> (Some e, w3)
                | (None, rec3, w3) \<Rightarrow> (body_raised, w3))))"
| "exec_body [] rec w = (None, rec, w)"
| "exec_body (With nm ic req body # rest) rec w =
     (case exec_with nm ic req body w of
        (Some e, w1) \<Rightarrow> (Some e, rec, w1)
      | (None, w1) \<Rightarrow> exec_body rest rec w1)"
| "exec_body (Set_abs a # rest) rec w = exec_body rest (rec\<lparr>abs_err := a\<rparr>) w"
| "exec_body (Set_rel b # rest) rec w = exec_body rest (rec\<lparr>rel_err := b\<rparr>) w"
| "exec_body (Raise e # rest) rec w = (Some e, rec, w)"

declare exec_with.simps [simp del]

subsection \<open>Runs in which no closure fails before its pop\<close>

text \<open>
  \<open>closure_call_returns self w\<close>: the step of \<open>__exit__\<close> before the pop raises nothing
  for the object \<open>self\<close> in the state \<open>w\<close>. Either recording is suppressed, or the object has
  a requester and the call of \<open>record_iteration\<close> that \<open>__exit__\<close> makes, with the values
  of \<open>abs\<close> and \<open>rel\<close> the object holds then, returns.
\<close>

definition closure_call_returns :: "'v Recording \<Rightarrow> 'v world \<Rightarrow> bool" where
  "closure_call_returns self w =
     (if do_recording_loop (stack (recording_iteration w))
      then (case recording_requester self of
              None \<Rightarrow> False
            | Some r \<Rightarrow> record_iteration r (exit_call self) = None)
      else True)"

text \<open>
  \<open>callbacks_return_with\<close> and \<open>callbacks_return_body\<close> follow the run itself: they ask
  \<open>closure_call_returns\<close> of every closure the run reaches, in the state and for the object
  the closure finds, and of no other.
\<close>

fun callbacks_return_with ::
    "string \<Rightarrow> int \<Rightarrow> ('v::zero) requester option \<Rightarrow> 'v stmt list \<Rightarrow> 'v world \<Rightarrow> bool"
  and callbacks_return_body ::
    "('v::zero) stmt list \<Rightarrow> 'v Recording \<Rightarrow> 'v world \<Rightarrow> bool" where
  "callbacks_return_with nm ic req body w =
     (case Recording_enter (Recording_init nm ic req) w of
        (rec, w1) \<Rightarrow>
          (callbacks_return_body body rec w1
           \<and> (case exec_body body rec w1 of
                (body_raised, rec2, w2) \<Rightarrow> closure_call_returns rec2 w2)))"
| "callbacks_return_body [] rec w = True"
| "callbacks_return_body (With nm ic req body # rest) rec w =
     (callbacks_return_with nm ic req body w
      \<and> (case exec_with nm ic req body w of
           (Some e, w1) \<Rightarrow> True
         | (None, w1) \<Rightarrow> callbacks_return_body rest rec w1))"
| "callbacks_return_body (Set_abs a # rest) rec w =
     callbacks_return_body rest (rec\<lparr>abs_err := a\<rparr>) w"
| "callbacks_return_body (Set_rel b # rest) rec w =
     callbacks_return_body rest (rec\<lparr>rel_err := b\<rparr>) w"
| "callbacks_return_body (Raise e # rest) rec w = True"

declare callbacks_return_with.simps [simp del]

subsection \<open>Concrete requesters and states\<close>

text \<open>
  A plain requester and a solver whose \<open>record_iteration\<close> returns, a requester whose
  \<open>record_iteration\<close> raises, a solver whose \<open>record_iteration\<close> raises only when
  both \<open>abs\<close> and \<open>rel\<close> are 0, and three states: nothing open, two scopes open, and
  three scopes open with \<open>_run_apply\<close> in the middle.
\<close>

definition plain_requester :: "int requester" where
  "plain_requester = \<lparr>rid = 1, is_Solver = False, record_iteration = (\<lambda>c. None)\<rparr>"

definition solver_requester :: "int requester" where
  "solver_requester = \<lparr>rid = 2, is_Solver = True, record_iteration = (\<lambda>c. None)\<rparr>"

definition failing_requester :: "int requester" where
  "failing_requester =
     \<lparr>rid = 3, is_Solver = False, record_iteration = (\<lambda>c. Some (UserError ''boom''))\<rparr>"

definition picky_requester :: "int requester" where
  "picky_requester =
     \<lparr>rid = 4, is_Solver = True,
      record_iteration = (\<lambda>c. if c = Record_iteration_abs_rel 0 0
                               then Some (UserError ''zero'') else None)\<rparr>"

definition empty_world :: "int world" where
  "empty_world =
     \<lparr>recording_iteration = \<lparr>stack = [], prefix = None\<rparr>, MPI = None, calls = []\<rparr>"

definition open_world :: "int world" where
  "open_world =
     \<lparr>recording_iteration = \<lparr>stack = [(''root'', 1), (''mda'', 3)], prefix = None\<rparr>,
      MPI = None, calls = []\<rparr>"

definition nested_world :: "int world" where
  "nested_world =
     \<lparr>recording_iteration =
        \<lparr>stack = [(''root'', 1), (''_run_apply'', 2), (''mda'', 3)], prefix = None\<rparr>,
      MPI = None, calls = []\<rparr>"

section \<open>Properties of the formatter\<close>

lemma str_int_0: "str_int 0 = ''0''"
  by (simp add: str_int_def str_nat.simps digit_char_def)

lemma str_int_6: "str_int 6 = ''6''"
  by (simp add: str_int_def str_nat.simps digit_char_def)

lemma str_int_45: "str_int 45 = ''45''"
  by (simp add: str_int_def str_nat.simps digit_char_def)

text \<open>The loop builds the list that mapping over the stack gives, in the stack's order.\<close>

lemma coord_list_loop_map:
  "coord_list_loop sep st acc = acc @ map (\<lambda>(n, c). n @ sep @ str_int c) st"
  by (induction sep st acc rule: coord_list_loop.induct) auto

text \<open>
  Claim C5. Formatting the stack \<open>[("root", 6), ("mda", 45)]\<close> with no prefix and rank 0
  returns exactly \<open>rank0:root|6|mda|45\<close>: the entries appear in insertion order, the
  outermost first. Rank 0 is either no MPI at all or an MPI whose rank is 0; the stack is
  given both as a list and as the result of entering the two scopes one after the other.
\<close>

theorem format_root_mda:
  "fst (get_formatted_iteration_coordinate
     \<lparr>recording_iteration = \<lparr>stack = [(''root'', 6), (''mda'', 45)], prefix = None\<rparr>,
      MPI = None, calls = cs\<rparr>) = ''rank0:root|6|mda|45''
   \<and> fst (get_formatted_iteration_coordinate
     \<lparr>recording_iteration = \<lparr>stack = [(''root'', 6), (''mda'', 45)], prefix = None\<rparr>,
      MPI = Some 0, calls = cs\<rparr>) = ''rank0:root|6|mda|45''
   \<and> fst (get_formatted_iteration_coordinate
       (snd (Recording_enter (Recording_init ''mda'' 45 r2)
         (snd (Recording_enter (Recording_init ''root'' 6 r1)
           \<lparr>recording_iteration = \<lparr>stack = [], prefix = None\<rparr>, MPI = None, calls = cs\<rparr>)))))
     = ''rank0:root|6|mda|45''"
  by (simp add: Let_def get_formatted_iteration_coordinate_def str_int_6 str_int_45 str_int_0
      Recording_enter_def Recording_init_def set_stack_def)

text \<open>
  Claim C6. Formatting an empty stack with no prefix and rank 0 returns exactly
  \<open>rank0:\<close>: the rank segment alone, with no entry and no trailing separator.
\<close>

theorem format_empty:
  "fst (get_formatted_iteration_coordinate
     \<lparr>recording_iteration = \<lparr>stack = [], prefix = None\<rparr>, MPI = None, calls = cs\<rparr>)
     = ''rank0:''
   \<and> fst (get_formatted_iteration_coordinate
     \<lparr>recording_iteration = \<lparr>stack = [], prefix = None\<rparr>, MPI = Some 0, calls = cs\<rparr>)
     = ''rank0:''"
  by (simp add: Let_def get_formatted_iteration_coordinate_def str_int_0)

text \<open>
  Claim C7. Resetting the iteration stack is running \<open>_RecIteration.__init__\<close> on it, the
  only code of the class. On an object in any state it leaves the stack empty and the
  prefix \<open>None\<close>, and the coordinate formatted afterwards is the one of a fresh object;
  for an object that held three entries and the prefix \<open>p\<close> it is \<open>rank0:\<close>.
\<close>

theorem reset_clears:
  "stack (RecIteration_init s) = []
   \<and> prefix (RecIteration_init s) = None
   \<and> fst (get_formatted_iteration_coordinate (w\<lparr>recording_iteration := RecIteration_init s\<rparr>))
     = fst (get_formatted_iteration_coordinate
         (w\<lparr>recording_iteration := \<lparr>stack = [], prefix = None\<rparr>\<rparr>))
   \<and> fst (get_formatted_iteration_coordinate
         (w\<lparr>recording_iteration :=
            RecIteration_init \<lparr>stack = [(''a'', 1), (''b'', 2), (''c'', 3)], prefix = Some ''p''\<rparr>,
            MPI := None\<rparr>)) = ''rank0:''"
  by (simp add: Let_def RecIteration_init_def get_formatted_iteration_coordinate_def)

text \<open>
  Claim C8. The formatter is deterministic and has no effect: it leaves the whole state
  (stack, prefix, rank and call log) as it found it, a second call returns the string of
  the first, and two states with the same stack, prefix and rank give the same string
  whatever else differs between them.
\<close>

theorem format_pure:
  "snd (get_formatted_iteration_coordinate w) = w
   \<and> fst (get_formatted_iteration_coordinate (snd (get_formatted_iteration_coordinate w)))
     = fst (get_formatted_iteration_coordinate w)
   \<and> (stack (recording_iteration w) = stack (recording_iteration w')
        \<and> prefix (recording_iteration w) = prefix (recording_iteration w')
        \<and> MPI w = MPI w'
      \<longrightarrow> fst (get_formatted_iteration_coordinate w)
          = fst (get_formatted_iteration_coordinate w'))"
  by (auto simp add: Let_def get_formatted_iteration_coordinate_def split: option.splits)

theorem format_pure_witness:
  "snd (get_formatted_iteration_coordinate open_world) = open_world
   \<and> fst (get_formatted_iteration_coordinate open_world)
     = fst (get_formatted_iteration_coordinate
         (open_world\<lparr>calls := [(1, Record_iteration_no_args)]\<rparr>))
   \<and> stack (recording_iteration (open_world\<lparr>calls := [(1, Record_iteration_no_args)]\<rparr>))
     = stack (recording_iteration open_world)"
  using format_pure [of open_world "open_world\<lparr>calls := [(1, Record_iteration_no_args)]\<rparr>"]
  by simp

text \<open>
  Claim C10. A prefix that is the empty string is formatted as no prefix at all: the
  test is on the truth value of the prefix, so no \<open>_\<close> segment is written.
\<close>

theorem empty_prefix_as_none:
  "fst (get_formatted_iteration_coordinate
         (w\<lparr>recording_iteration := (recording_iteration w)\<lparr>prefix := Some ''''\<rparr>\<rparr>))
   = fst (get_formatted_iteration_coordinate
         (w\<lparr>recording_iteration := (recording_iteration w)\<lparr>prefix := None\<rparr>\<rparr>))"
  by (simp add: Let_def get_formatted_iteration_coordinate_def)

section \<open>Properties of \<open>Recording.__exit__\<close>\<close>

lemma do_recording_loop_iff:
  "do_recording_loop st \<longleftrightarrow>
     (\<forall>f \<in> set st. fst f \<noteq> ''_run_apply'' \<and> fst f \<noteq> ''_compute_totals'')"
  by (induction st) auto

lemma suppressed_stack_nonempty: "\<not> do_recording_loop st \<Longrightarrow> st \<noteq> []"
  by auto

lemma stack_set_stack [simp]: "stack (recording_iteration (set_stack st w)) = st"
  by (simp add: set_stack_def)

lemma calls_set_stack [simp]: "calls (set_stack st w) = calls w"
  by (simp add: set_stack_def)

lemma stack_Recording_enter [simp]:
  "stack (recording_iteration (snd (Recording_enter self w)))
     = stack (recording_iteration w) @ [(name self, iter_count self)]"
  by (simp add: Recording_enter_def)

lemma fst_Recording_enter [simp]: "fst (Recording_enter self w) = self"
  by (simp add: Recording_enter_def)

text \<open>The three ways \<open>__exit__\<close> can go when the stack is not empty.\<close>

lemma Recording_exit_suppressed:
  assumes "\<not> do_recording_loop (stack (recording_iteration w))"
  shows "Recording_exit self w =
    (None, self\<lparr>recording_requester := None\<rparr>,
     set_stack (butlast (stack (recording_iteration w))) w)"
  using assms suppressed_stack_nonempty [OF assms]
  by (simp add: Recording_exit_def list_pop_def)

lemma Recording_exit_returns:
  assumes "do_recording_loop (stack (recording_iteration w))"
    and "recording_requester self = Some r"
    and "record_iteration r (exit_call self) = None"
    and "stack (recording_iteration w) \<noteq> []"
  shows "Recording_exit self w =
    (None, self\<lparr>recording_requester := None\<rparr>,
     set_stack (butlast (stack (recording_iteration w)))
       (w\<lparr>calls := calls w @ [(rid r, exit_call self)]\<rparr>))"
  using assms
  by (simp add: Recording_exit_def call_record_iteration_def list_pop_def)

lemma Recording_exit_raises:
  assumes "do_recording_loop (stack (recording_iteration w))"
    and "recording_requester self = Some r"
    and "record_iteration r (exit_call self) = Some e"
  shows "Recording_exit self w =
    (Some e, self, w\<lparr>calls := calls w @ [(rid r, exit_call self)]\<rparr>)"
  using assms
  by (simp add: Recording_exit_def call_record_iteration_def)

lemma Recording_exit_pops:
  assumes "stack (recording_iteration w) \<noteq> []"
    and "do_recording_loop (stack (recording_iteration w)) \<Longrightarrow>
           \<exists>r. recording_requester self = Some r \<and> record_iteration r (exit_call self) = None"
  shows "fst (Recording_exit self w) = None \<and>
         stack (recording_iteration (snd (snd (Recording_exit self w))))
           = butlast (stack (recording_iteration w))"
proof (cases "do_recording_loop (stack (recording_iteration w))")
  case True
  then obtain r where "recording_requester self = Some r"
    and "record_iteration r (exit_call self) = None"
    using assms(2) by blast
  with True assms(1) show ?thesis
    by (simp add: Recording_exit_returns)
next
  case False
  then show ?thesis
    by (simp add: Recording_exit_suppressed)
qed

text \<open>
  Claim C1. At every scope closure, when an entry of the current stack is named
  \<open>_run_apply\<close> or \<open>_compute_totals\<close>, at whatever position (entries \<open>outer\<close> before it
  and \<open>inner\<close> after it, the scope's own entry being the last of the stack), no call of
  \<open>record_iteration\<close> is made.
\<close>

theorem suppressed_no_callback:
  assumes "stack (recording_iteration w) = outer @ (nm, ic) # inner"
    and "nm = ''_run_apply'' \<or> nm = ''_compute_totals''"
  shows "calls (snd (snd (Recording_exit self w))) = calls w"
proof -
  have "\<not> do_recording_loop (stack (recording_iteration w))"
    using assms by (auto simp add: do_recording_loop_iff)
  then show ?thesis
    by (simp add: Recording_exit_suppressed)
qed

theorem suppressed_no_callback_witness:
  "stack (recording_iteration nested_world)
     = [(''root'', 1)] @ (''_run_apply'', 2) # [(''mda'', 3)]
   \<and> calls (snd (snd (Recording_exit (Recording_init ''mda'' 3 (Some plain_requester))
         nested_world))) = []"
proof -
  have st: "stack (recording_iteration nested_world)
              = [(''root'', 1)] @ (''_run_apply'', 2) # [(''mda'', 3)]"
    by (simp add: nested_world_def)
  have "calls (snd (snd (Recording_exit (Recording_init ''mda'' 3 (Some plain_requester))
          nested_world))) = calls nested_world"
    using suppressed_no_callback [OF st] by simp
  then show ?thesis
    using st by (simp add: nested_world_def)
qed

text \<open>
  Claim C4. At a closure that is not suppressed, a scope constructed for a requester that
  is a solver calls \<open>record_iteration\<close> with the two values \<open>abs\<close> and \<open>rel\<close> the scope
  holds then, and a scope constructed for any other requester calls it with no argument;
  exactly one call is made.
\<close>

theorem dispatch_by_kind:
  assumes "\<forall>f \<in> set (stack (recording_iteration w)).
             fst f \<noteq> ''_run_apply'' \<and> fst f \<noteq> ''_compute_totals''"
    and "self = (Recording_init nm ic (Some r))\<lparr>abs_err := a, rel_err := b\<rparr>"
  shows "calls (snd (snd (Recording_exit self w))) =
           calls w @ [(rid r, if is_Solver r then Record_iteration_abs_rel a b
                              else Record_iteration_no_args)]"
proof -
  have rec: "do_recording_loop (stack (recording_iteration w))"
    using assms(1) by (simp add: do_recording_loop_iff)
  have req: "recording_requester self = Some r"
    and call: "exit_call self = (if is_Solver r then Record_iteration_abs_rel a b
                              else Record_iteration_no_args)"
    using assms(2) by (simp_all add: Recording_init_def exit_call_def)
  show ?thesis
  proof (cases "record_iteration r (exit_call self)")
    case None
    then show ?thesis
      using rec req call
      by (cases "stack (recording_iteration w) = []")
         (simp_all add: Recording_exit_def call_record_iteration_def list_pop_def)
  next
    case (Some e)
    then show ?thesis
      using rec req call by (simp add: Recording_exit_raises)
  qed
qed

theorem dispatch_by_kind_witness:
  "calls (snd (snd (Recording_exit
      ((Recording_init ''mda'' 3 (Some solver_requester))\<lparr>abs_err := 5, rel_err := 7\<rparr>)
      open_world))) = [(2, Record_iteration_abs_rel 5 7)]
   \<and> calls (snd (snd (Recording_exit
      ((Recording_init ''mda'' 3 (Some plain_requester))\<lparr>abs_err := 5, rel_err := 7\<rparr>)
      open_world))) = [(1, Record_iteration_no_args)]"
proof -
  have ok: "\<forall>f \<in> set (stack (recording_iteration open_world)).
              fst f \<noteq> ''_run_apply'' \<and> fst f \<noteq> ''_compute_totals''"
    by (simp add: open_world_def)
  show ?thesis
    using dispatch_by_kind [where w = open_world and nm = "''mda''" and ic = 3
        and r = solver_requester and a = 5 and b = 7, OF ok refl]
      dispatch_by_kind [where w = open_world and nm = "''mda''" and ic = 3
        and r = plain_requester and a = 5 and b = 7, OF ok refl]
    by (simp add: open_world_def solver_requester_def plain_requester_def)
qed

text \<open>
  Claim C9. \<open>pop\<close> on an empty stack fails with \<open>IndexError\<close> and on a stack that is not
  empty it removes the last entry and does not fail. The error reaches the caller of
  \<open>__exit__\<close>: a closure on an empty stack whose callback returns raises \<open>IndexError\<close>,
  and a closure on a stack that is not empty whose callback returns raises nothing.
\<close>

theorem pop_empty_fails:
  "list_pop ([] :: frame list) = Inl IndexError
   \<and> list_pop (st @ [f :: frame]) = Inr (f, st)
   \<and> (stack (recording_iteration w) = []
        \<and> recording_requester self = Some r
        \<and> record_iteration r (exit_call self) = None
      \<longrightarrow> fst (Recording_exit self w) = Some IndexError)
   \<and> (stack (recording_iteration w) \<noteq> []
        \<and> recording_requester self = Some r
        \<and> record_iteration r (exit_call self) = None
      \<longrightarrow> fst (Recording_exit self w) = None)"
  by (simp add: list_pop_def Recording_exit_def call_record_iteration_def)

theorem pop_empty_fails_witness:
  "fst (Recording_exit (Recording_init ''root'' 1 (Some plain_requester)) empty_world)
     = Some IndexError
   \<and> fst (Recording_exit (Recording_init ''mda'' 3 (Some plain_requester)) open_world) = None"
proof -
  have rq: "\<And>nm ic. recording_requester (Recording_init nm ic (Some plain_requester))
              = Some plain_requester"
    by (simp add: Recording_init_def)
  have ok: "\<And>c. record_iteration plain_requester c = None"
    by (simp add: plain_requester_def)
  have e: "stack (recording_iteration empty_world) = []"
    by (simp add: empty_world_def)
  have ne: "stack (recording_iteration open_world) \<noteq> []"
    by (simp add: open_world_def)
  show ?thesis
    using pop_empty_fails [of "[]" "(''x'', 0)" empty_world
        "Recording_init ''root'' 1 (Some plain_requester)" plain_requester]
      pop_empty_fails [of "[]" "(''x'', 0)" open_world
        "Recording_init ''mda'' 3 (Some plain_requester)" plain_requester]
      rq ok e ne
    by simp
qed

section \<open>Nested scopes and the stack\<close>

lemma calls_only_call_record_iteration [simp]:
  "recording_iteration (snd (call_record_iteration self w)) = recording_iteration w"
  by (simp add: call_record_iteration_def split: option.splits)

text \<open>A closure either leaves the stack as it found it or removes its last entry.\<close>

lemma Recording_exit_stack_cases:
  "stack (recording_iteration (snd (snd (Recording_exit self w))))
     = stack (recording_iteration w)
   \<or> stack (recording_iteration w) \<noteq> []
     \<and> stack (recording_iteration (snd (snd (Recording_exit self w))))
         = butlast (stack (recording_iteration w))"
  by (auto simp add: Recording_exit_def call_record_iteration_def list_pop_def
      split: option.splits)

text \<open>A closure whose step before the pop raises nothing pops, on a stack that is not empty.\<close>

lemma Recording_exit_pops_when_call_returns:
  assumes "stack (recording_iteration w) \<noteq> []"
    and "closure_call_returns self w"
  shows "fst (Recording_exit self w) = None \<and>
         stack (recording_iteration (snd (snd (Recording_exit self w))))
           = butlast (stack (recording_iteration w))"
proof (rule Recording_exit_pops [OF assms(1)])
  assume "do_recording_loop (stack (recording_iteration w))"
  with assms(2)
  show "\<exists>r. recording_requester self = Some r \<and> record_iteration r (exit_call self) = None"
    by (auto simp add: closure_call_returns_def split: option.splits)
qed

text \<open>The \<open>with\<close> statement in terms of its three steps.\<close>

lemma exec_with_steps:
  assumes "Recording_enter (Recording_init nm ic req) w = (rec, w1)"
    and "exec_body body rec w1 = (body_raised, rec2, w2)"
  shows "exec_with nm ic req body w =
     (case fst (Recording_exit rec2 w2) of Some e \<Rightarrow> Some e | None \<Rightarrow> body_raised,
      snd (snd (Recording_exit rec2 w2)))"
  using assms by (simp add: exec_with.simps split: prod.splits option.splits)

text \<open>
  No run removes an entry that was on the stack when it began: the entries a run found
  are still there, in place, when it ends, however it ends.
\<close>

lemma exec_keeps_outer_entries:
  "take (length (stack (recording_iteration w)))
        (stack (recording_iteration (snd (exec_with nm ic req body w))))
     = stack (recording_iteration w)"
  "take (length (stack (recording_iteration w)))
        (stack (recording_iteration (snd (snd (exec_body body rec w)))))
     = stack (recording_iteration w)"
proof (induction nm ic req body w and body rec w rule: exec_with_exec_body.induct)
  case (1 nm ic req body w)
  let ?st = "stack (recording_iteration w)"
  obtain rec w1 where ent: "Recording_enter (Recording_init nm ic req) w = (rec, w1)"
    by (cases "Recording_enter (Recording_init nm ic req) w")
  obtain body_raised rec2 w2 where bod: "exec_body body rec w1 = (body_raised, rec2, w2)"
    by (cases "exec_body body rec w1")
  have st1: "stack (recording_iteration w1) = ?st @ [(nm, ic)]"
    using ent by (auto simp add: Recording_enter_def Recording_init_def)
  have ih: "take (Suc (length ?st)) (stack (recording_iteration w2)) = ?st @ [(nm, ic)]"
    using "1.IH" [OF ent [symmetric]] bod by (simp add: st1)
  have "length (take (Suc (length ?st)) (stack (recording_iteration w2))) = Suc (length ?st)"
    by (simp only: ih length_append_singleton)
  then have len: "length ?st < length (stack (recording_iteration w2))"
    by simp
  have keep: "take (length ?st) (stack (recording_iteration w2)) = ?st"
  proof -
    have "take (length ?st) (take (Suc (length ?st)) (stack (recording_iteration w2)))
            = take (length ?st) (?st @ [(nm, ic)])"
      by (simp only: ih)
    then show ?thesis by simp
  qed
  have "take (length ?st) (stack (recording_iteration (snd (snd (Recording_exit rec2 w2)))))
          = ?st"
    using Recording_exit_stack_cases [of rec2 w2] keep len
    by (auto simp add: take_butlast)
  then show ?case
    by (simp only: exec_with_steps [OF ent bod] snd_conv)
next
  case (2 rec w)
  show ?case by simp
next
  case (3 nm ic req body rest rec w)
  show ?case
  proof (cases "exec_with nm ic req body w")
    case (Pair raised w1)
    have a: "take (length (stack (recording_iteration w))) (stack (recording_iteration w1))
               = stack (recording_iteration w)"
      using "3.IH"(1) Pair by simp
    show ?thesis
    proof (cases raised)
      case None
      have b: "take (length (stack (recording_iteration w1)))
                 (stack (recording_iteration (snd (snd (exec_body rest rec w1)))))
               = stack (recording_iteration w1)"
        using "3.IH"(2) [OF Pair [symmetric] None] .
      have "length (take (length (stack (recording_iteration w)))
                      (stack (recording_iteration w1)))
              = length (stack (recording_iteration w))"
        by (simp only: a)
      then have "length (stack (recording_iteration w)) \<le> length (stack (recording_iteration w1))"
        by simp
      then have "take (length (stack (recording_iteration w)))
                   (stack (recording_iteration (snd (snd (exec_body rest rec w1)))))
                 = take (length (stack (recording_iteration w)))
                     (take (length (stack (recording_iteration w1)))
                       (stack (recording_iteration (snd (snd (exec_body rest rec w1))))))"
        by (simp add: min_def)
      also have "\<dots> = stack (recording_iteration w)"
        by (simp only: b a)
      finally show ?thesis
        using Pair None by simp
    next
      case (Some e)
      then show ?thesis using Pair a by simp
    qed
  qed
next
  case (4 a rest rec w)
  then show ?case by simp
next
  case (5 b rest rec w)
  then show ?case by simp
next
  case (6 e rest rec w)
  show ?case by simp
qed

text \<open>
  Claim C2, as the code has it. The claim says the entry is popped before the error of
  a failing \<open>record_iteration\<close> reaches the caller. In the code the call comes before the
  pop and nothing catches its exception: for the scope \<open>root\<close> opened on the empty stack
  with a requester whose callback raises, the closure raises that error and the entry
  \<open>(root, 1)\<close> is still on the stack.
\<close>

theorem callback_failure_counterexample:
  "fst (Recording_exit
         (fst (Recording_enter (Recording_init ''root'' 1 (Some failing_requester)) empty_world))
         (snd (Recording_enter (Recording_init ''root'' 1 (Some failing_requester)) empty_world)))
     = Some (UserError ''boom'')
   \<and> stack (recording_iteration empty_world) = []
   \<and> stack (recording_iteration (snd (snd (Recording_exit
         (fst (Recording_enter (Recording_init ''root'' 1 (Some failing_requester)) empty_world))
         (snd (Recording_enter (Recording_init ''root'' 1 (Some failing_requester)) empty_world))))))
     = [(''root'', 1)]"
  by (simp add: Recording_exit_def Recording_enter_def Recording_init_def empty_world_def
      failing_requester_def call_record_iteration_def exit_call_def set_stack_def)

text \<open>
  Claim C2, amended. At every scope closure in which the requester's \<open>record_iteration\<close>
  raises an error, whatever the body of the scope did, that error goes to the caller and
  the closure pops nothing: the stack is left exactly as the closure found it. The entry
  pushed at scope entry is therefore still on the stack, at the place where it was
  pushed, and the stack is deeper than before the scope.

  Here \<open>w\<close> is the state before the scope, \<open>w2\<close> the state and \<open>rec2\<close> the object the
  closure finds after the body.
\<close>

theorem callback_failure_keeps_frame:
  assumes "Recording_enter (Recording_init nm ic req) w = (rec, w1)"
    and "exec_body body rec w1 = (body_raised, rec2, w2)"
    and "\<forall>f \<in> set (stack (recording_iteration w2)).
           fst f \<noteq> ''_run_apply'' \<and> fst f \<noteq> ''_compute_totals''"
    and "recording_requester rec2 = Some r"
    and "record_iteration r (exit_call rec2) = Some e"
  shows "fst (exec_with nm ic req body w) = Some e
       \<and> stack (recording_iteration (snd (exec_with nm ic req body w)))
           = stack (recording_iteration w2)
       \<and> take (length (stack (recording_iteration w)) + 1)
              (stack (recording_iteration (snd (exec_with nm ic req body w))))
           = stack (recording_iteration w) @ [(nm, ic)]
       \<and> length (stack (recording_iteration w))
           < length (stack (recording_iteration (snd (exec_with nm ic req body w))))"
proof -
  let ?st = "stack (recording_iteration w)"
  have "do_recording_loop (stack (recording_iteration w2))"
    using assms(3) by (simp add: do_recording_loop_iff)
  then have ex: "Recording_exit rec2 w2 =
    (Some e, rec2, w2\<lparr>calls := calls w2 @ [(rid r, exit_call rec2)]\<rparr>)"
    using assms(4,5) by (rule Recording_exit_raises)
  have res: "exec_with nm ic req body w
               = (Some e, w2\<lparr>calls := calls w2 @ [(rid r, exit_call rec2)]\<rparr>)"
    by (simp add: exec_with_steps [OF assms(1,2)] ex)
  have st1: "stack (recording_iteration w1) = ?st @ [(nm, ic)]"
    using assms(1) by (auto simp add: Recording_enter_def Recording_init_def)
  have keep: "take (length ?st + 1) (stack (recording_iteration w2)) = ?st @ [(nm, ic)]"
    using exec_keeps_outer_entries(2) [of w1 body rec] assms(2) by (simp add: st1)
  have "length (take (length ?st + 1) (stack (recording_iteration w2))) = length ?st + 1"
    by (simp only: keep length_append_singleton Suc_eq_plus1)
  then have "length ?st < length (stack (recording_iteration w2))"
    by simp
  then show ?thesis
    using res keep by simp
qed

theorem callback_failure_keeps_frame_witness:
  "exec_with ''root'' 1 (Some failing_requester)
       [With ''mda'' 2 (Some failing_requester) []] empty_world
     = (Some (UserError ''boom''),
        \<lparr>recording_iteration = \<lparr>stack = [(''root'', 1), (''mda'', 2)], prefix = None\<rparr>,
         MPI = None,
         calls = [(3, Record_iteration_no_args), (3, Record_iteration_no_args)]\<rparr>)
   \<and> stack (recording_iteration empty_world) = []"
proof -
  let ?rec = "Recording_init ''root'' 1 (Some failing_requester)"
  let ?w1 = "\<lparr>recording_iteration = \<lparr>stack = [(''root'', 1)], prefix = None\<rparr>,
              MPI = None, calls = []\<rparr> :: int world"
  let ?w2 = "\<lparr>recording_iteration = \<lparr>stack = [(''root'', 1), (''mda'', 2)], prefix = None\<rparr>,
              MPI = None, calls = [(3, Record_iteration_no_args)]\<rparr> :: int world"
  have ent: "Recording_enter ?rec empty_world = (?rec, ?w1)"
    by (simp add: Recording_enter_def Recording_init_def empty_world_def set_stack_def)
  have bod: "exec_body [With ''mda'' 2 (Some failing_requester) []] ?rec ?w1
               = (Some (UserError ''boom''), ?rec, ?w2)"
    by (simp add: exec_with.simps Recording_exit_def Recording_enter_def Recording_init_def
        failing_requester_def call_record_iteration_def exit_call_def set_stack_def)
  have ok: "\<forall>f \<in> set (stack (recording_iteration ?w2)).
              fst f \<noteq> ''_run_apply'' \<and> fst f \<noteq> ''_compute_totals''"
    by simp
  have rq: "recording_requester ?rec = Some failing_requester"
    by (simp add: Recording_init_def)
  have fl: "record_iteration failing_requester (exit_call ?rec) = Some (UserError ''boom'')"
    by (simp add: failing_requester_def)
  have run: "exec_with ''root'' 1 (Some failing_requester)
       [With ''mda'' 2 (Some failing_requester) []] empty_world
     = (Some (UserError ''boom''),
        \<lparr>recording_iteration = \<lparr>stack = [(''root'', 1), (''mda'', 2)], prefix = None\<rparr>,
         MPI = None,
         calls = [(3, Record_iteration_no_args), (3, Record_iteration_no_args)]\<rparr>)"
    by (simp add: exec_with.simps Recording_exit_def Recording_enter_def Recording_init_def
        failing_requester_def call_record_iteration_def exit_call_def set_stack_def
        empty_world_def)
  show ?thesis
    using callback_failure_keeps_frame [OF ent bod ok rq fl] run
    by (simp add: empty_world_def)
qed

section \<open>Balance of nested scopes\<close>

lemma exec_preserves_stack:
  "callbacks_return_with nm ic req body w \<Longrightarrow>
     stack (recording_iteration (snd (exec_with nm ic req body w)))
       = stack (recording_iteration w)"
  "callbacks_return_body body rec w \<Longrightarrow>
     stack (recording_iteration (snd (snd (exec_body body rec w))))
       = stack (recording_iteration w)"
proof (induction nm ic req body w and body rec w rule: exec_with_exec_body.induct)
  case (1 nm ic req body w)
  obtain rec w1 where ent: "Recording_enter (Recording_init nm ic req) w = (rec, w1)"
    by (cases "Recording_enter (Recording_init nm ic req) w")
  obtain body_raised rec2 w2 where bod: "exec_body body rec w1 = (body_raised, rec2, w2)"
    by (cases "exec_body body rec w1")
  have st1: "stack (recording_iteration w1) = stack (recording_iteration w) @ [(nm, ic)]"
    using ent by (auto simp add: Recording_enter_def Recording_init_def)
  have hyp: "callbacks_return_body body rec w1" and ret: "closure_call_returns rec2 w2"
    using "1.prems" ent bod by (simp_all add: callbacks_return_with.simps)
  have st2: "stack (recording_iteration w2) = stack (recording_iteration w) @ [(nm, ic)]"
    using "1.IH" [OF ent [symmetric] hyp] bod by (simp add: st1)
  have "stack (recording_iteration (snd (snd (Recording_exit rec2 w2))))
          = butlast (stack (recording_iteration w2))"
    using Recording_exit_pops_when_call_returns [OF _ ret] by (simp add: st2)
  then show ?case
    by (simp add: exec_with_steps [OF ent bod] st2)
next
  case (2 rec w)
  show ?case by simp
next
  case (3 nm ic req body rest rec w)
  show ?case
  proof (cases "exec_with nm ic req body w")
    case (Pair raised w1)
    have a: "stack (recording_iteration w1) = stack (recording_iteration w)"
      using "3.IH"(1) "3.prems" Pair by simp
    show ?thesis
    proof (cases raised)
      case None
      have "callbacks_return_body rest rec w1"
        using "3.prems" Pair None by simp
      then have "stack (recording_iteration (snd (snd (exec_body rest rec w1))))
                   = stack (recording_iteration w1)"
        using "3.IH"(2) [OF Pair [symmetric] None] by simp
      then show ?thesis
        using Pair None a by simp
    next
      case (Some e)
      then show ?thesis using Pair a by simp
    qed
  qed
next
  case (4 a rest rec w)
  then show ?case by simp
next
  case (5 b rest rec w)
  then show ?case by simp
next
  case (6 e rest rec w)
  show ?case by simp
qed

text \<open>
  Claim C3, as the code has it. The claim says the depth is restored also when a closure
  callback fails. Opening \<open>root\<close> and inside it \<open>mda\<close>, whose callback raises, on the empty
  stack ends with the error raised and the entry \<open>(root, 1)\<close> left on the stack: the failed
  closure of \<open>mda\<close> pops nothing, and the closure of \<open>root\<close> pops the entry of \<open>mda\<close>.
\<close>

theorem balance_counterexample:
  "exec_with ''root'' 1 (Some plain_requester)
     [With ''mda'' 2 (Some failing_requester) []] empty_world
   = (Some (UserError ''boom''),
      \<lparr>recording_iteration = \<lparr>stack = [(''root'', 1)], prefix = None\<rparr>, MPI = None,
       calls = [(3, Record_iteration_no_args), (1, Record_iteration_no_args)]\<rparr>)
   \<and> length (stack (recording_iteration empty_world)) = 0"
  by (simp add: exec_with.simps Recording_exit_def Recording_enter_def Recording_init_def
      empty_world_def failing_requester_def plain_requester_def call_record_iteration_def
      exit_call_def set_stack_def list_pop_def)

text \<open>
  Claim C3, amended. For any properly nested scopes, also when scope bodies exit
  abnormally, in which no closure that the run reaches fails before its pop (each such
  closure is suppressed, or its scope has a requester and the call of \<open>record_iteration\<close>
  it makes returns): the stack after all scopes have closed is the stack before the
  first scope opened, and so the depths are equal. This holds for one outermost scope
  and for a sequence of statements run inside any scope.
\<close>

theorem balanced_when_callbacks_return:
  "(callbacks_return_with nm ic req body w \<longrightarrow>
      stack (recording_iteration (snd (exec_with nm ic req body w)))
        = stack (recording_iteration w)
      \<and> length (stack (recording_iteration (snd (exec_with nm ic req body w))))
        = length (stack (recording_iteration w)))
   \<and> (callbacks_return_body body rec w \<longrightarrow>
      stack (recording_iteration (snd (snd (exec_body body rec w))))
        = stack (recording_iteration w)
      \<and> length (stack (recording_iteration (snd (snd (exec_body body rec w)))))
        = length (stack (recording_iteration w)))"
  using exec_preserves_stack(1) [of nm ic req body w] exec_preserves_stack(2) [of body rec w]
  by simp

theorem balanced_when_callbacks_return_witness:
  "exec_with ''sub'' 4 (Some picky_requester)
     [With ''_run_apply'' 5 None [With ''inner'' 6 (Some failing_requester) []],
      Set_abs 2, Set_rel 3,
      Raise (UserError ''diverged''),
      With ''late'' 7 (Some failing_requester) []]
     open_world
   = (Some (UserError ''diverged''),
      open_world\<lparr>calls := [(4, Record_iteration_abs_rel 2 3)]\<rparr>)
   \<and> length (stack (recording_iteration (snd (exec_with ''sub'' 4 (Some picky_requester)
     [With ''_run_apply'' 5 None [With ''inner'' 6 (Some failing_requester) []],
      Set_abs 2, Set_rel 3,
      Raise (UserError ''diverged''),
      With ''late'' 7 (Some failing_requester) []]
     open_world)))) = 2"
proof -
  have ok: "callbacks_return_with ''sub'' 4 (Some picky_requester)
     [With ''_run_apply'' 5 None [With ''inner'' 6 (Some failing_requester) []],
      Set_abs 2, Set_rel 3,
      Raise (UserError ''diverged''),
      With ''late'' 7 (Some failing_requester) []]
     open_world"
    by (simp add: callbacks_return_with.simps exec_with.simps closure_call_returns_def
        Recording_exit_def Recording_enter_def Recording_init_def open_world_def
        picky_requester_def failing_requester_def call_record_iteration_def exit_call_def
        set_stack_def list_pop_def)
  have run: "exec_with ''sub'' 4 (Some picky_requester)
     [With ''_run_apply'' 5 None [With ''inner'' 6 (Some failing_requester) []],
      Set_abs 2, Set_rel 3,
      Raise (UserError ''diverged''),
      With ''late'' 7 (Some failing_requester) []]
     open_world
   = (Some (UserError ''diverged''),
      open_world\<lparr>calls := [(4, Record_iteration_abs_rel 2 3)]\<rparr>)"
    by (simp add: exec_with.simps Recording_exit_def Recording_enter_def Recording_init_def
        open_world_def picky_requester_def failing_requester_def call_record_iteration_def
        exit_call_def set_stack_def list_pop_def)
  show ?thesis
    using balanced_when_callbacks_return [of "''sub''" 4 "Some picky_requester"
        "[With ''_run_apply'' 5 None [With ''inner'' 6 (Some failing_requester) []],
          Set_abs 2, Set_rel 3,
          Raise (UserError ''diverged''),
          With ''late'' 7 (Some failing_requester) []]" open_world] ok run
    by (simp add: open_world_def)
qed

end
